theory Spec2Isabelle
  imports Main "HOL-Library.Sublist"
begin

section \<open>EvtFilter: a shallow embedding of evtfilter.py\<close>

text \<open>
  The program turns a directory of Windows event logs into one CSV file. Each log is
  decoded by an external tool into an XML document, read into a table, filtered by a time
  window and by EventID lists, normalised, tagged with its source file and merged.

  Conventions of the embedding.
  \<^item> A Python \<open>str\<close> is a \<open>string\<close>; a \<open>char\<close> stands for a code point below 256.
    A Python \<open>bytes\<close> value is a list of \<open>char\<close> as well (a \<open>char\<close> is a byte).
  \<^item> An exception is a value of \<open>error\<close>; a function that can raise returns
    \<open>error + 'a\<close>, with \<open>Inl\<close> for the exception.
  \<^item> What the Python runtime, pandas, the file system and the external decoder do is
    not code of the repository: it is a field of the record \<open>world\<close>, and every theorem
    holds for every world unless it says otherwise.
\<close>

subsection \<open>Exceptions\<close>

datatype error =
    ValueError        \<comment> \<open>also raised by \<open>int\<close> and by \<open>pd.read_xml\<close>\<close>
  | XPathError        \<comment> \<open>the class imported (or shimmed) at lines 22-27\<close>
  | NameError         \<comment> \<open>an unbound global name\<close>
  | OSError           \<comment> \<open>a failed file-system or process call\<close>
  | LookupError       \<comment> \<open>an unknown codec name\<close>
  | KeyError
  | OtherError        \<comment> \<open>any other subclass of \<open>Exception\<close>\<close>
  | SystemExit        \<comment> \<open>raised by \<open>sys.exit\<close>; not a subclass of \<open>Exception\<close>\<close>

subsection \<open>Python strings\<close>

type_synonym bytes = string

definition comma :: char where
  "comma = CHR 0x2C"

definition dquote :: char where
  "dquote = CHR 0x22"

definition newline :: char where
  "newline = CHR 0x0A"

text \<open>\<open>str.isspace\<close> on one code point below 256: the characters \<open>str.strip()\<close> removes.\<close>

definition is_space :: "char \<Rightarrow> bool" where
  "is_space c =
     (let n = (of_char c :: nat)
      in (9 \<le> n \<and> n \<le> 13) \<or> (28 \<le> n \<and> n \<le> 32) \<or> n = 133 \<or> n = 160)"

definition py_strip :: "string \<Rightarrow> string" where
  "py_strip s = rev (dropWhile is_space (rev (dropWhile is_space s)))"

text \<open>\<open>s.split(sep)\<close> for a one-character separator: always at least one piece.\<close>

fun py_split :: "char \<Rightarrow> string \<Rightarrow> string list" where
  "py_split sep [] = [[]]"
| "py_split sep (c # cs) =
     (if c = sep then [] # py_split sep cs
      else (case py_split sep cs of
              [] \<Rightarrow> [[c]]
            | p # ps \<Rightarrow> (c # p) # ps))"

text \<open>\<open>s.replace(old, new)\<close> for a one-character \<open>old\<close>.\<close>

definition py_replace :: "char \<Rightarrow> string \<Rightarrow> string \<Rightarrow> string" where
  "py_replace old new s = concat (map (\<lambda>c. if c = old then new else [c]) s)"

definition is_digit :: "char \<Rightarrow> bool" where
  "is_digit c = (let n = (of_char c :: nat) in 48 \<le> n \<and> n \<le> 57)"

definition digit_value :: "char \<Rightarrow> nat" where
  "digit_value c = of_char c - 48"

text \<open>
  \<open>int(s)\<close> in base ten: surrounding whitespace, an optional sign, then decimal digits
  in which single underscores may separate digits. \<open>None\<close> is the \<open>ValueError\<close>.
\<close>

fun int_digits :: "nat \<Rightarrow> string \<Rightarrow> nat option" where
  "int_digits acc [] = Some acc"
| "int_digits acc [c] = (if is_digit c then Some (10 * acc + digit_value c) else None)"
| "int_digits acc (c # d # cs) =
     (if is_digit c then int_digits (10 * acc + digit_value c) (d # cs)
      else if c = CHR ''_'' \<and> is_digit d then int_digits (10 * acc + digit_value d) cs
      else None)"

definition int_magnitude :: "string \<Rightarrow> nat option" where
  "int_magnitude s =
     (case s of
        [] \<Rightarrow> None
      | c # cs \<Rightarrow> if is_digit c then int_digits (digit_value c) cs else None)"

definition py_int :: "string \<Rightarrow> int option" where
  "py_int s =
     (case py_strip s of
        [] \<Rightarrow> None
      | c # cs \<Rightarrow>
          if c = CHR ''-'' then map_option (\<lambda>n. - int n) (int_magnitude cs)
          else if c = CHR ''+'' then map_option int (int_magnitude cs)
          else map_option int (int_magnitude (c # cs)))"

subsection \<open>The filter spec loader (lines 66-73)\<close>

text \<open>
  The generator \<open>int(x.strip()) for x in pieces if x.strip()\<close> consumed by
  \<open>ids.extend\<close>: pieces that are blank after stripping are skipped, the first piece
  that \<open>int\<close> rejects raises \<open>ValueError\<close>.
\<close>

fun extend_ints :: "int list \<Rightarrow> string list \<Rightarrow> error + int list" where
  "extend_ints ids [] = Inr ids"
| "extend_ints ids (x # xs) =
     (if py_strip x = [] then extend_ints ids xs
      else (case py_int (py_strip x) of
              None \<Rightarrow> Inl ValueError
            | Some n \<Rightarrow> extend_ints (ids @ [n]) xs))"

text \<open>
  \<open>read_lines path\<close> is what \<open>open(path, encoding="utf-8")\<close> yields when iterated:
  the lines of the file, or \<open>Inl\<close> the exception of a file that cannot be opened or
  decoded. \<open>if arg_val:\<close> and \<open>if file_path:\<close> test truthiness, so an empty string
  counts as absent. The last line is \<open>return ids or None\<close>.
\<close>

definition load_id_list ::
  "(string \<Rightarrow> error + string list) \<Rightarrow> string option \<Rightarrow> string option \<Rightarrow> error + int list option"
where
  "load_id_list read_lines arg_val file_path =
     (case (if arg_val \<noteq> None \<and> arg_val \<noteq> Some []
            then extend_ints [] (py_split comma (the arg_val))
            else Inr [])
      of
        Inl e \<Rightarrow> Inl e
      | Inr ids1 \<Rightarrow>
          (case (if file_path \<noteq> None \<and> file_path \<noteq> Some []
                 then (case read_lines (the file_path) of
                         Inl e \<Rightarrow> Inl e
                       | Inr ls \<Rightarrow> extend_ints ids1 ls)
                 else Inr ids1)
           of
             Inl e \<Rightarrow> Inl e
           | Inr ids \<Rightarrow> Inr (if ids = [] then None else Some ids)))"

subsection \<open>The encoding detector (lines 31 and 124-144)\<close>

text \<open>ASCII case folding: what \<open>re.I\<close> does on a bytes pattern, and \<open>str.lower\<close> on ASCII.\<close>

definition ascii_lower :: "char \<Rightarrow> char" where
  "ascii_lower c =
     (let n = (of_char c :: nat) in if 65 \<le> n \<and> n \<le> 90 then char_of (n + 32) else c)"

definition enc_literal :: bytes where
  "enc_literal = ''encoding='' @ [dquote]"

text \<open>
  \<open>ENC_RE = re.compile(rb'encoding="([^"]+)"', re.I)\<close>. A match that starts at the head
  of \<open>bs\<close>: the ten literal bytes (letters in either case), then the longest run of bytes
  other than the double quote, which must be non-empty and followed by a double quote.
  The result is group 1.
\<close>

definition enc_match_here :: "bytes \<Rightarrow> bytes option" where
  "enc_match_here bs =
     (if map ascii_lower (take 10 bs) = enc_literal
      then (let rest = drop 10 bs; g = takeWhile (\<lambda>b. b \<noteq> dquote) rest
            in if g \<noteq> [] \<and> length g < length rest then Some g else None)
      else None)"

text \<open>\<open>ENC_RE.search\<close>: the match at the leftmost position that has one.\<close>

fun enc_re_search :: "bytes \<Rightarrow> bytes option" where
  "enc_re_search [] = None"
| "enc_re_search (b # bs) =
     (case enc_match_here (b # bs) of
        Some g \<Rightarrow> Some g
      | None \<Rightarrow> enc_re_search bs)"

text \<open>\<open>b.decode("ascii", "ignore")\<close>: bytes above 127 are dropped.\<close>

definition decode_ascii_ignore :: "bytes \<Rightarrow> string" where
  "decode_ascii_ignore bs = filter (\<lambda>b. (of_char b :: nat) < 128) bs"

definition utf16_aliases :: "string list" where
  "utf16_aliases =
     [''iso-10646-ucs-2'', ''utf-16'', ''utf-16le'', ''utf-16be'', ''ucs-2'', ''unicode'']"

definition bom_le :: bytes where
  "bom_le = [CHR 0xFF, CHR 0xFE]"

definition bom_be :: bytes where
  "bom_be = [CHR 0xFE, CHR 0xFF]"

definition detect_xml_encoding :: "bytes \<Rightarrow> string" where
  "detect_xml_encoding raw =
     (if prefix bom_le raw then ''utf-16le''
      else if prefix bom_be raw then ''utf-16be''
      else (case enc_re_search (take 200 raw) of
              Some g \<Rightarrow>
                (let enc = map ascii_lower (decode_ascii_ignore g)
                 in if enc \<in> set utf16_aliases then ''utf-16le'' else enc)
            | None \<Rightarrow> ''utf-8''))"

subsection \<open>Tables\<close>

text \<open>
  A pandas \<open>DataFrame\<close>: the row labels (\<open>df.index\<close>) and the columns in order, each with
  its name, its dtype and one cell per row. \<open>pd.read_xml\<close> builds every row as a
  dictionary, so column names are distinct, and labels the rows \<open>0, 1, 2, ...\<close>.
  A timestamp is a value of a linear order \<open>'t\<close>; \<open>NaT\<close> and \<open>NaN\<close> are the missing
  markers of pandas.
\<close>

datatype dtype = ObjectT | Int64T | Float64T | DatetimeT

datatype 't cell =
    Str string
  | Bytes bytes
  | IntV int
  | NaN
  | Stamp 't
  | NaT

type_synonym 't column = "string \<times> dtype \<times> 't cell list"

record 't frame =
  index :: "nat list"
  cols :: "'t column list"

definition col_name :: "'t column \<Rightarrow> string" where
  "col_name c = fst c"

definition col_dtype :: "'t column \<Rightarrow> dtype" where
  "col_dtype c = fst (snd c)"


definition columns :: "'t frame \<Rightarrow> string list" where
  "columns df = map col_name (cols df)"

text \<open>\<open>df[name]\<close> for a name that is a column.\<close>

definition get_column :: "'t frame \<Rightarrow> string \<Rightarrow> (dtype \<times> 't cell list) option" where
  "get_column df name = map_of (cols df) name"

text \<open>\<open>df.empty\<close>: no rows or no columns.\<close>

definition frame_empty :: "'t frame \<Rightarrow> bool" where
  "frame_empty df = (index df = [] \<or> cols df = [])"


text \<open>Boolean-mask selection \<open>xs[keep]\<close> and \<open>df[keep]\<close>.\<close>

definition select :: "bool list \<Rightarrow> 'a list \<Rightarrow> 'a list" where
  "select keep xs = map snd (filter fst (zip keep xs))"

definition select_rows :: "bool list \<Rightarrow> 't frame \<Rightarrow> 't frame" where
  "select_rows keep df =
     \<lparr>index = select keep (index df),
      cols = map (\<lambda>(n, ty, cs). (n, ty, select keep cs)) (cols df)\<rparr>"

text \<open>\<open>df[name] = column\<close>: in place when the name is a column, appended last otherwise.\<close>

fun assign :: "string \<Rightarrow> dtype \<times> 't cell list \<Rightarrow> 't column list \<Rightarrow> 't column list" where
  "assign n c [] = [(n, c)]"
| "assign n c (d # ds) = (if fst d = n then (n, c) # ds else d # assign n c ds)"

definition set_column :: "string \<Rightarrow> dtype \<times> 't cell list \<Rightarrow> 't frame \<Rightarrow> 't frame" where
  "set_column n c df = df\<lparr>cols := assign n c (cols df)\<rparr>"

subsection \<open>The record filter and normaliser (lines 102-121)\<close>

text \<open>
  Library behaviour the filter relies on, passed as parameters:
  \<^item> \<open>to_datetime cells\<close> is \<open>pd.to_datetime(series, errors="coerce")\<close>: one result per
    cell, \<open>None\<close> where the value does not parse (\<open>NaT\<close>);
  \<^item> \<open>decode16 b\<close> is \<open>b.decode("utf-16le", "ignore")\<close>;
  \<^item> \<open>str_of c\<close> is \<open>str(x)\<close> for a cell that is neither text nor bytes.
\<close>

definition stamp_cell :: "'t option \<Rightarrow> 't cell" where
  "stamp_cell t = (case t of None \<Rightarrow> NaT | Some v \<Rightarrow> Stamp v)"

text \<open>\<open>(ts >= start) & (ts <= end)\<close> on one parsed value: a comparison with \<open>NaT\<close> is False.\<close>

definition in_window :: "'t::linorder \<Rightarrow> 't \<Rightarrow> 't option \<Rightarrow> bool" where
  "in_window start stop t = (case t of None \<Rightarrow> False | Some v \<Rightarrow> start \<le> v \<and> v \<le> stop)"

text \<open>Lines 104-106.\<close>

definition time_filter ::
  "('t cell list \<Rightarrow> 't option list) \<Rightarrow> 't::linorder \<Rightarrow> 't \<Rightarrow> 't frame \<Rightarrow> 't frame"
where
  "time_filter to_datetime start stop df =
     (case get_column df ''TimeGenerated'' of
        None \<Rightarrow> df
      | Some (ty, cs) \<Rightarrow>
          (let ts = to_datetime cs;
               df1 = set_column ''TimeGenerated'' (DatetimeT, map stamp_cell ts) df
           in select_rows (map (in_window start stop) ts) df1))"

text \<open>\<open>Series.isin(ids)\<close> on one cell, for a list of Python integers.\<close>

definition isin :: "int list \<Rightarrow> 't cell \<Rightarrow> bool" where
  "isin ids c = (case c of IntV n \<Rightarrow> n \<in> set ids | _ \<Rightarrow> False)"

text \<open>Lines 108-109 and 110-111.\<close>

definition include_filter :: "int list option \<Rightarrow> 't frame \<Rightarrow> 't frame" where
  "include_filter incl df =
     (case incl of
        None \<Rightarrow> df
      | Some ids \<Rightarrow>
          (case get_column df ''EventID'' of
             None \<Rightarrow> df
           | Some (ty, cs) \<Rightarrow> select_rows (map (isin ids) cs) df))"

definition exclude_filter :: "int list option \<Rightarrow> 't frame \<Rightarrow> 't frame" where
  "exclude_filter excl df =
     (case excl of
        None \<Rightarrow> df
      | Some ids \<Rightarrow>
          (case get_column df ''EventID'' of
             None \<Rightarrow> df
           | Some (ty, cs) \<Rightarrow> select_rows (map (\<lambda>c. \<not> isin ids c) cs) df))"

definition eventid_filter :: "int list option \<Rightarrow> int list option \<Rightarrow> 't frame \<Rightarrow> 't frame" where
  "eventid_filter incl excl df = exclude_filter excl (include_filter incl df)"

text \<open>Lines 116-120 on one cell: the lambda, then \<open>.str.replace(",", placeholder)\<close>.\<close>

definition cell_text :: "(bytes \<Rightarrow> string) \<Rightarrow> ('t cell \<Rightarrow> string) \<Rightarrow> 't cell \<Rightarrow> string" where
  "cell_text decode16 str_of c =
     (case c of
        Bytes b \<Rightarrow> decode16 b
      | Str s \<Rightarrow> s
      | _ \<Rightarrow> str_of c)"

definition normalize_cell ::
  "(bytes \<Rightarrow> string) \<Rightarrow> ('t cell \<Rightarrow> string) \<Rightarrow> string \<Rightarrow> 't cell \<Rightarrow> 't cell"
where
  "normalize_cell decode16 str_of placeholder c =
     Str (py_replace comma placeholder (cell_text decode16 str_of c))"

text \<open>Lines 114-120: every column of dtype object is rewritten, the others are left.\<close>

definition normalize_frame ::
  "(bytes \<Rightarrow> string) \<Rightarrow> ('t cell \<Rightarrow> string) \<Rightarrow> string \<Rightarrow> 't frame \<Rightarrow> 't frame"
where
  "normalize_frame decode16 str_of placeholder df =
     df\<lparr>cols := map (\<lambda>(n, ty, cs).
            if ty = ObjectT then (n, ty, map (normalize_cell decode16 str_of placeholder) cs)
            else (n, ty, cs)) (cols df)\<rparr>"

definition filter_frame ::
  "('t cell list \<Rightarrow> 't option list) \<Rightarrow> (bytes \<Rightarrow> string) \<Rightarrow> ('t cell \<Rightarrow> string) \<Rightarrow>
   't frame \<Rightarrow> 't::linorder \<Rightarrow> 't \<Rightarrow> int list option \<Rightarrow> int list option \<Rightarrow> string \<Rightarrow> 't frame"
where
  "filter_frame to_datetime decode16 str_of df start stop incl excl placeholder =
     normalize_frame decode16 str_of placeholder
       (eventid_filter incl excl (time_filter to_datetime start stop df))"

subsection \<open>The world outside the program\<close>

text \<open>
  The file system maps a path to a directory or to a file with its bytes. The state of a
  run is the file system, the records handed to the \<open>logging\<close> module, and the
  directories \<open>shutil.rmtree\<close> was called on, in order.
\<close>

datatype node = Dir | File bytes

datatype level = INFO | WARNING | ERROR

record state =
  nodes :: "string \<Rightarrow> node option"
  records :: "(level \<times> string) list"
  rmtree_calls :: "string list"

datatype append_result = OpenFails | WriteFails | Written

text \<open>
  What the libraries and the decoder tool do in one run. A field of type \<open>option\<close> is
  \<open>None\<close> where the call raises.
  \<^item> \<open>mkdtemp\<close>: the directory \<open>tempfile.mkdtemp\<close> creates;
  \<^item> \<open>uuid_hex\<close>: \<open>uuid.uuid4().hex\<close>; \<open>basename\<close>: \<open>os.path.basename\<close>;
  \<^item> \<open>link_ok\<close>, \<open>copy_ok\<close>: whether \<open>os.link\<close> and \<open>shutil.copy2\<close> succeed;
  \<^item> \<open>run_tool cmd\<close>: \<open>subprocess.run\<close> of the decoder: exit code, stdout, stderr and
    the bytes it left at the destination of its query, if any;
  \<^item> \<open>read_xml\<close>, \<open>read_xml_text\<close>: \<open>pd.read_xml(..., xpath="//ROW")\<close> on the bytes of
    a file and on decoded text;
  \<^item> \<open>codec_decode enc raw\<close>: \<open>raw.decode(enc, errors="ignore")\<close>, \<open>None\<close> for a codec
    Python does not know;
  \<^item> \<open>append_outcome path\<close>: how opening \<open>path\<close> for appending and writing to it ends;
  \<^item> \<open>exc_text\<close>: \<open>str(exc)\<close>;
  \<^item> \<open>strptime\<close>: \<open>dt.datetime.strptime(s, "%Y-%m-%d %H:%M:%S")\<close>;
  \<^item> \<open>read_lines path\<close>: the lines of a text file, or the exception of opening it;
  \<^item> \<open>walk root\<close>: what \<open>os.walk(root)\<close> yields.
\<close>

record 't world =
  mkdtemp :: "string option"
  uuid_hex :: string
  basename :: "string \<Rightarrow> string"
  link_ok :: "string \<Rightarrow> string \<Rightarrow> bool"
  copy_ok :: "string \<Rightarrow> string \<Rightarrow> bool"
  run_tool :: "string list \<Rightarrow> (int \<times> string \<times> string \<times> bytes option) option"
  read_xml :: "bytes \<Rightarrow> error + 't frame"
  read_xml_text :: "string \<Rightarrow> error + 't frame"
  codec_decode :: "string \<Rightarrow> bytes \<Rightarrow> string option"
  to_datetime :: "'t cell list \<Rightarrow> 't option list"
  decode16 :: "bytes \<Rightarrow> string"
  str_of :: "'t cell \<Rightarrow> string"
  append_outcome :: "string \<Rightarrow> append_result"
  encode_utf8 :: "string \<Rightarrow> bytes"
  exc_text :: "error \<Rightarrow> string"
  strptime :: "string \<Rightarrow> 't option"
  read_lines :: "string \<Rightarrow> error + string list"
  walk :: "string \<Rightarrow> (string \<times> string list \<times> string list) list"

definition os_sep :: char where
  "os_sep = CHR 0x5C"

text \<open>\<open>os.path.join(d, name)\<close> for a bare file name \<open>name\<close>.\<close>

definition path_join :: "string \<Rightarrow> string \<Rightarrow> string" where
  "path_join d name = d @ [os_sep] @ name"

text \<open>The paths \<open>shutil.rmtree(d)\<close> deletes: \<open>d\<close> and everything below it.\<close>

definition inside :: "string \<Rightarrow> string \<Rightarrow> bool" where
  "inside d p = (p = d \<or> prefix (d @ [os_sep]) p)"

definition isfile :: "state \<Rightarrow> string \<Rightarrow> bool" where
  "isfile s p = (case nodes s p of Some (File b) \<Rightarrow> True | _ \<Rightarrow> False)"

definition getsize :: "state \<Rightarrow> string \<Rightarrow> nat" where
  "getsize s p = (case nodes s p of Some (File b) \<Rightarrow> length b | _ \<Rightarrow> 0)"

definition put_file :: "string \<Rightarrow> bytes \<Rightarrow> state \<Rightarrow> state" where
  "put_file p b s = s\<lparr>nodes := (nodes s)(p \<mapsto> File b)\<rparr>"

definition make_dir :: "string \<Rightarrow> state \<Rightarrow> state" where
  "make_dir d s = s\<lparr>nodes := (nodes s)(d \<mapsto> Dir)\<rparr>"

text \<open>\<open>shutil.rmtree(d, ignore_errors=True)\<close>: it never raises.\<close>

definition rmtree :: "string \<Rightarrow> state \<Rightarrow> state" where
  "rmtree d s =
     s\<lparr>nodes := (\<lambda>p. if inside d p then None else nodes s p),
       rmtree_calls := rmtree_calls s @ [d]\<rparr>"

definition logging :: "level \<Rightarrow> string \<Rightarrow> state \<Rightarrow> state" where
  "logging lv msg s = s\<lparr>records := records s @ [(lv, msg)]\<rparr>"

subsection \<open>The error reporter (lines 82-88)\<close>

text \<open>
  The \<open>with open(log_file, "a", encoding="utf-8")\<close> block of lines 85-86. Opening
  creates a missing file; a failed write leaves what was there.
\<close>

definition append_file ::
  "'t world \<Rightarrow> string \<Rightarrow> string \<Rightarrow> state \<Rightarrow> (error + unit) \<times> state"
where
  "append_file w path text s =
     (case nodes s path of
        Some Dir \<Rightarrow> (Inl OSError, s)
      | other \<Rightarrow>
          (let old = (case other of Some (File b) \<Rightarrow> b | _ \<Rightarrow> [])
           in case append_outcome w path of
                OpenFails \<Rightarrow> (Inl OSError, s)
              | WriteFails \<Rightarrow> (Inl OSError, put_file path old s)
              | Written \<Rightarrow> (Inr (), put_file path (old @ encode_utf8 w text) s)))"

text \<open>\<open>logging.error(msg)\<close>, then the \<open>try\<close> whose handler is \<open>except Exception: pass\<close>.\<close>

definition log_error ::
  "'t world \<Rightarrow> string \<Rightarrow> string \<Rightarrow> state \<Rightarrow> (error + unit) \<times> state"
where
  "log_error w log_file msg s =
     (case append_file w log_file (msg @ [newline]) (logging ERROR msg s) of
        (Inl e, s') \<Rightarrow> (Inr (), s')
      | (Inr u, s') \<Rightarrow> (Inr (), s'))"

subsection \<open>The decoder command (lines 91-99)\<close>

definition build_lp_cmd :: "string \<Rightarrow> string \<Rightarrow> string \<Rightarrow> string list" where
  "build_lp_cmd lp src dst_xml =
     [lp, ''SELECT * INTO '' @ dst_xml @ '' FROM '' @ [CHR 0x27] @ src @ [CHR 0x27],
      ''-i:EVT'', ''-o:XML'', ''-structure:1'', ''-q:ON'']"

subsection \<open>The result reader (lines 146-167)\<close>

text \<open>
  The fast path lets pandas read the file; \<open>XPathError\<close> and \<open>ValueError\<close> lead to
  the manual decode. In the second handler the source reads \<open>return Non\<close>: evaluating
  the unbound name \<open>Non\<close> raises \<open>NameError\<close>. Every other exception of either parse
  leaves the function.
\<close>

definition safe_read_xml :: "'t world \<Rightarrow> state \<Rightarrow> string \<Rightarrow> error + 't frame option" where
  "safe_read_xml w s path =
     (case nodes s path of
        Some (File raw) \<Rightarrow>
          (case read_xml w raw of
             Inr df \<Rightarrow> Inr (Some df)
           | Inl e \<Rightarrow>
               if e = XPathError \<or> e = ValueError
               then (let enc = detect_xml_encoding raw
                     in case codec_decode w enc raw of
                          None \<Rightarrow> Inl LookupError
                        | Some txt \<Rightarrow>
                            (case read_xml_text w txt of
                               Inr df \<Rightarrow> Inr (Some df)
                             | Inl e2 \<Rightarrow> if e2 = XPathError then Inl NameError else Inl e2))
               else Inl e)
      | _ \<Rightarrow> Inl OSError)"

subsection \<open>Safe staging (lines 169-185)\<close>

text \<open>\<open>re.sub(r"%+", "_", name)\<close>: every maximal run of percent signs becomes one underscore.\<close>

fun sub_percent :: "bool \<Rightarrow> string \<Rightarrow> string" where
  "sub_percent in_run [] = []"
| "sub_percent in_run (c # cs) =
     (if c = CHR ''%''
      then (if in_run then sub_percent True cs else CHR ''_'' # sub_percent True cs)
      else c # sub_percent False cs)"

definition safe_copy ::
  "'t world \<Rightarrow> string \<Rightarrow> string \<Rightarrow> state \<Rightarrow> (error + string) \<times> state"
where
  "safe_copy w src dst_dir s =
     (let clean_name = sub_percent False (basename w src);
          tmp_path = path_join dst_dir (uuid_hex w @ ''_'' @ clean_name)
      in case nodes s src of
           Some (File b) \<Rightarrow>
             if link_ok w src tmp_path then (Inr tmp_path, put_file tmp_path b s)
             else if copy_ok w src tmp_path then (Inr tmp_path, put_file tmp_path b s)
             else (Inl OSError, s)
         | _ \<Rightarrow> (Inl OSError, s))"

subsection \<open>The worker (lines 188-223)\<close>

text \<open>\<open>str(n)\<close> for an integer, as the f-string of line 203 formats the exit code.\<close>

function nat_text :: "nat \<Rightarrow> string" where
  "nat_text n =
     (if n < 10 then [char_of (48 + n)]
      else nat_text (n div 10) @ [char_of (48 + n mod 10)])"
  by pat_completeness auto
termination
  by (relation "measure id") auto

definition int_text :: "int \<Rightarrow> string" where
  "int_text i = (if i < 0 then CHR ''-'' # nat_text (nat (- i)) else nat_text (nat i))"

text \<open>The job tuple unpacked at line 191.\<close>

record 't job =
  fp :: string
  lp :: string
  sdt :: 't
  edt :: 't
  inc_ids :: "int list option"
  exc_ids :: "int list option"
  ph :: string
  logf :: string

definition source_file :: string where
  "source_file = ''SourceFile''"

definition tool_failed_msg :: "int \<Rightarrow> string \<Rightarrow> string \<Rightarrow> string \<Rightarrow> string" where
  "tool_failed_msg rc path err out =
     ''LogParser failed ('' @ int_text rc @ '') on '' @ path @ '':'' @ [newline] @
     ''STDERR: '' @ py_strip err @ [newline] @ ''STDOUT: '' @ py_strip out"

text \<open>
  The body of the \<open>try\<close> (lines 194-217), for the temporary directory \<open>tmp_dir\<close>. The
  result is \<open>Inl\<close> for an exception that leaves the body; the state is the one reached
  when the body is left.
\<close>

definition worker_body ::
  "('t::linorder) world \<Rightarrow> 't job \<Rightarrow> string \<Rightarrow> state \<Rightarrow> (error + 't frame option) \<times> state"
where
  "worker_body w job tmp_dir s =
     (case safe_copy w (fp job) tmp_dir s of
        (Inl e, s1) \<Rightarrow> (Inl e, s1)
      | (Inr safe_src, s1) \<Rightarrow>
          (let tmp_xml = path_join tmp_dir ''lp.xml''
           in case run_tool w (build_lp_cmd (lp job) safe_src tmp_xml) of
                None \<Rightarrow> (Inl OSError, s1)
              | Some (rc, out, err, written) \<Rightarrow>
                  (let s2 = (case written of None \<Rightarrow> s1 | Some b \<Rightarrow> put_file tmp_xml b s1)
                   in if rc \<noteq> 0
                      then (case log_error w (logf job) (tool_failed_msg rc (fp job) err out) s2 of
                              (Inl e, s3) \<Rightarrow> (Inl e, s3)
                            | (Inr u, s3) \<Rightarrow> (Inr None, s3))
                      else if \<not> isfile s2 tmp_xml \<or> getsize s2 tmp_xml = 0
                      then (Inr None, logging INFO (fp job @ '': log contained 0 events'') s2)
                      else (case safe_read_xml w s2 tmp_xml of
                              Inl e \<Rightarrow> (Inl e, s2)
                            | Inr None \<Rightarrow>
                                (Inr None,
                                 logging INFO (fp job @ '': no events in selected time-window'') s2)
                            | Inr (Some df) \<Rightarrow>
                                if frame_empty df
                                then (Inr None,
                                      logging INFO
                                        (fp job @ '': no events in selected time-window'') s2)
                                else (let df1 = filter_frame (to_datetime w) (decode16 w)
                                                  (str_of w) df (sdt job) (edt job)
                                                  (inc_ids job) (exc_ids job) (ph job);
                                          df2 = set_column source_file
                                                  (ObjectT,
                                                   replicate (length (index df1)) (Str (fp job)))
                                                  df1
                                      in (Inr (Some df2), s2))))))"

text \<open>
  Line 192 is outside the \<open>try\<close>: a failing \<open>mkdtemp\<close> leaves the worker with its
  exception. Otherwise the handler of lines 219-221 reports an exception of the body
  through \<open>log_error\<close> and returns \<open>None\<close>, and the \<open>finally\<close> of lines 222-223 runs
  last on every path.
\<close>

definition worker ::
  "('t::linorder) world \<Rightarrow> 't job \<Rightarrow> state \<Rightarrow> (error + 't frame option) \<times> state"
where
  "worker w job s =
     (case mkdtemp w of
        None \<Rightarrow> (Inl OSError, s)
      | Some tmp_dir \<Rightarrow>
          (case (case worker_body w job tmp_dir (make_dir tmp_dir s) of
                   (Inr r, s1) \<Rightarrow> (Inr r, s1)
                 | (Inl exc, s1) \<Rightarrow>
                     (case log_error w (logf job)
                             (''Exception processing '' @ fp job @ '': '' @ exc_text w exc) s1 of
                        (Inl e, s2) \<Rightarrow> (Inl e, s2)
                      | (Inr u, s2) \<Rightarrow> (Inr None, s2)))
           of (r, s3) \<Rightarrow> (r, rmtree tmp_dir s3)))"

subsection \<open>File discovery (lines 76-79)\<close>




subsection \<open>The main program (lines 227-264)\<close>



text \<open>
  The columns of \<open>pd.concat(frames, ignore_index=True)\<close>: the union of the frames'
  columns, each at the place where it is first seen.
\<close>

definition first_seen :: "'a list \<Rightarrow> 'a list" where
  "first_seen xs = foldl (\<lambda>acc x. if x \<in> set acc then acc else acc @ [x]) [] xs"





subsection \<open>Notions used to state the properties\<close>

text \<open>
  The tokens of a list of pieces (the parts of the inline list between commas, or the
  lines of the ID file): each piece stripped, the blank ones left out. These are the
  strings the loader hands to \<open>int\<close>.
\<close>

definition tokens :: "string list \<Rightarrow> string list" where
  "tokens xs = filter (\<lambda>t. t \<noteq> []) (map py_strip xs)"

definition valid_int :: "string \<Rightarrow> bool" where
  "valid_int t = (py_int t \<noteq> None)"

text \<open>The pieces each source contributes; a source that is absent or \<open>""\<close> contributes none.\<close>

definition inline_pieces :: "string option \<Rightarrow> string list" where
  "inline_pieces arg_val =
     (case arg_val of None \<Rightarrow> [] | Some v \<Rightarrow> if v = [] then [] else py_split comma v)"

definition file_pieces ::
  "(string \<Rightarrow> error + string list) \<Rightarrow> string option \<Rightarrow> error + string list"
where
  "file_pieces rl file_path =
     (case file_path of None \<Rightarrow> Inr [] | Some p \<Rightarrow> if p = [] then Inr [] else rl p)"

text \<open>
  The bytes \<open>bs\<close> declare the encoding \<open>g\<close> at offset \<open>i\<close>: there the text
  \<open>encoding="\<close> stands, in any mix of cases, followed by the non-empty, quote-free
  name \<open>g\<close> and a closing double quote.
\<close>

definition declares_at :: "bytes \<Rightarrow> nat \<Rightarrow> bytes \<Rightarrow> bool" where
  "declares_at bs i g =
     (\<exists>pre lit post. bs = pre @ lit @ g @ dquote # post \<and> length pre = i \<and>
        map ascii_lower lit = enc_literal \<and> g \<noteq> [] \<and> dquote \<notin> set g)"



subsection \<open>Sample inputs\<close>

text \<open>
  A small run used to instantiate the theorems: one log \<open>a,b.evtx\<close> whose decoded table
  has three records. Timestamps are natural numbers, written in decimal.
\<close>

definition sample_frame :: "nat frame" where
  "sample_frame =
     \<lparr>index = [0, 1, 2],
      cols = [(''EventID'', Int64T, [IntV 4624, IntV 1, IntV 4624]),
              (''TimeGenerated'', ObjectT, [Str ''5'', Str ''bad'', Str ''20'']),
              (''Message'', ObjectT, [Str ''a,b'', Str ''c'', NaN])]\<rparr>"

definition sample_to_datetime :: "nat cell list \<Rightarrow> nat option list" where
  "sample_to_datetime cs =
     map (\<lambda>c. case c of Str t \<Rightarrow> map_option nat (py_int t) | _ \<Rightarrow> None) cs"

definition sample_world :: "nat world" where
  "sample_world =
     \<lparr>mkdtemp = Some ''T'', uuid_hex = ''u1'', basename = (\<lambda>p. p),
      link_ok = (\<lambda>src dst. False), copy_ok = (\<lambda>src dst. True),
      run_tool = (\<lambda>cmd. Some (0, [], [], Some ''<ROOT/>'')),
      read_xml = (\<lambda>b. Inr sample_frame), read_xml_text = (\<lambda>t. Inr sample_frame),
      codec_decode = (\<lambda>enc raw. Some raw),
      to_datetime = sample_to_datetime, decode16 = (\<lambda>b. b), str_of = (\<lambda>c. ''nan''),
      append_outcome = (\<lambda>p. Written), encode_utf8 = (\<lambda>t. t),
      exc_text = (\<lambda>e. ''failed''), strptime = (\<lambda>t. Some (length t)),
      read_lines = (\<lambda>p. Inr []), walk = (\<lambda>root. [(root, [], [''a,b.evtx''])])\<rparr>"

definition sample_state :: state where
  "sample_state =
     \<lparr>nodes = (\<lambda>p. if p = ''a,b.evtx'' then Some (File ''ElfFile'') else None),
      records = [], rmtree_calls = []\<rparr>"

definition sample_job :: "nat job" where
  "sample_job =
     \<lparr>fp = ''a,b.evtx'', lp = ''LogParser.exe'', sdt = 0, edt = 30,
      inc_ids = Some [4624], exc_ids = None, ph = '';'', logf = ''err.log''\<rparr>"


text \<open>A document that starts with the declaration of the encoding \<open>name\<close>.\<close>

definition xml_decl :: "string \<Rightarrow> bytes" where
  "xml_decl name = ''encoding='' @ [dquote] @ name @ [dquote] @ ''?>''"


definition no_rows_world :: "nat world" where
  "no_rows_world =
     sample_world\<lparr>read_xml := (\<lambda>b. Inl ValueError), read_xml_text := (\<lambda>t. Inl XPathError)\<rparr>"

definition no_rows_world2 :: "nat world" where
  "no_rows_world2 =
     sample_world\<lparr>read_xml := (\<lambda>b. Inl ValueError), read_xml_text := (\<lambda>t. Inl ValueError)\<rparr>"


definition decoded_state :: state where
  "decoded_state = put_file (path_join ''T'' ''lp.xml'') ''<ROOT/>'' sample_state"






section \<open>Properties\<close>

subsection \<open>The filter spec loader\<close>

lemma extend_ints_eq:
  "extend_ints ids xs =
     (if list_all valid_int (tokens xs) then Inr (ids @ map (the \<circ> py_int) (tokens xs))
      else Inl ValueError)"
  by (induction xs arbitrary: ids) (auto simp: tokens_def valid_int_def split: option.splits)

lemma load_id_list_eq:
  "load_id_list rl a f =
     (if \<not> list_all valid_int (tokens (inline_pieces a)) then Inl ValueError
      else (case file_pieces rl f of
              Inl e \<Rightarrow> Inl e
            | Inr ls \<Rightarrow>
                if \<not> list_all valid_int (tokens ls) then Inl ValueError
                else (let ids = map (the \<circ> py_int) (tokens (inline_pieces a) @ tokens ls)
                      in Inr (if ids = [] then None else Some ids))))"
  unfolding load_id_list_def inline_pieces_def file_pieces_def
  by (cases a; cases f) (auto simp: extend_ints_eq tokens_def Let_def split: sum.splits)

text \<open>
  Claim C2, as the code has it. With both sources absent the loader returns \<open>None\<close>. It
  never returns an empty list: whenever it returns, the result is \<open>None\<close> exactly when
  the sources contribute no token at all (also when a source is present but empty or
  blank), and otherwise it is the non-empty list of the inline IDs followed by the IDs of
  the file, duplicates kept.
\<close>

theorem load_id_list_none_iff_no_tokens:
  "load_id_list rl None None = Inr None \<and>
   load_id_list rl a f \<noteq> Inr (Some []) \<and>
   (load_id_list rl a f = Inr r \<longrightarrow>
      (\<exists>ls. file_pieces rl f = Inr ls \<and>
            (r = None \<longleftrightarrow> tokens (inline_pieces a) = [] \<and> tokens ls = []) \<and>
            (\<forall>ids. r = Some ids \<longrightarrow>
               ids \<noteq> [] \<and> ids = map (the \<circ> py_int) (tokens (inline_pieces a) @ tokens ls))))"
proof (intro conjI impI)
  show "load_id_list rl None None = Inr None"
    by (simp add: load_id_list_def)
  show "load_id_list rl a f \<noteq> Inr (Some [])"
    by (auto simp: load_id_list_eq Let_def split: sum.splits if_splits)
next
  assume "load_id_list rl a f = Inr r"
  then show "\<exists>ls. file_pieces rl f = Inr ls \<and>
            (r = None \<longleftrightarrow> tokens (inline_pieces a) = [] \<and> tokens ls = []) \<and>
            (\<forall>ids. r = Some ids \<longrightarrow>
               ids \<noteq> [] \<and> ids = map (the \<circ> py_int) (tokens (inline_pieces a) @ tokens ls))"
    by (auto simp: load_id_list_eq Let_def split: sum.splits if_splits)
qed

theorem load_id_list_none_iff_no_tokens_witness:
  "load_id_list (\<lambda>p. Inr [''4624'' @ [newline], [newline]]) (Some ''1, 2,'') (Some ''ids.txt'')
     = Inr (Some [1, 2, 4624]) \<and>
   (\<exists>ls. file_pieces (\<lambda>p. Inr [''4624'' @ [newline], [newline]]) (Some ''ids.txt'') = Inr ls \<and>
      [1, 2, 4624] = map (the \<circ> py_int) (tokens (inline_pieces (Some ''1, 2,'')) @ tokens ls))"
proof -
  have h: "load_id_list (\<lambda>p. Inr [''4624'' @ [newline], [newline]]) (Some ''1, 2,'')
             (Some ''ids.txt'') = Inr (Some [1, 2, 4624])"
    by code_simp
  from load_id_list_none_iff_no_tokens
         [of "\<lambda>p. Inr [''4624'' @ [newline], [newline]]" "Some ''1, 2,''" "Some ''ids.txt''"
             "Some [1, 2, 4624]"]
  show ?thesis using h by auto
qed

text \<open>
  Against C2 as stated: an ID file that is present and empty, and an inline list that is
  present and holds only blanks, both give \<open>None\<close>, not an empty collection.
\<close>

theorem load_id_list_present_but_none:
  "load_id_list (\<lambda>p. Inr []) None (Some ''ids.txt'') = Inr None \<and>
   load_id_list (\<lambda>p. Inr []) (Some '' , '') None = Inr None"
  by code_simp




subsection \<open>The encoding detector\<close>

lemma length_enc_literal: "length enc_literal = 10"
  by (simp add: enc_literal_def)

lemma enc_match_here_iff:
  "enc_match_here bs = Some g \<longleftrightarrow>
     (\<exists>lit post. bs = lit @ g @ dquote # post \<and> map ascii_lower lit = enc_literal \<and>
        g \<noteq> [] \<and> dquote \<notin> set g)"
proof
  assume a: "enc_match_here bs = Some g"
  let ?rest = "drop 10 bs"
  from a have lit: "map ascii_lower (take 10 bs) = enc_literal"
    and g: "g = takeWhile (\<lambda>b. b \<noteq> dquote) ?rest"
    and ne: "g \<noteq> []" and lt: "length g < length ?rest"
    by (auto simp: enc_match_here_def Let_def split: if_splits)
  have nq: "dquote \<notin> set g"
    using g by (auto dest: set_takeWhileD)
  from lt g have dne: "dropWhile (\<lambda>b. b \<noteq> dquote) ?rest \<noteq> []"
    by (metis append_Nil2 less_irrefl takeWhile_dropWhile_id)
  then have "hd (dropWhile (\<lambda>b. b \<noteq> dquote) ?rest) = dquote"
    using hd_dropWhile[of "\<lambda>b. b \<noteq> dquote" ?rest] by simp
  with dne obtain post where "dropWhile (\<lambda>b. b \<noteq> dquote) ?rest = dquote # post"
    by (cases "dropWhile (\<lambda>b. b \<noteq> dquote) ?rest") auto
  then have "?rest = g @ dquote # post"
    using g takeWhile_dropWhile_id[of "\<lambda>b. b \<noteq> dquote" ?rest] by simp
  then have "bs = take 10 bs @ g @ dquote # post"
    by (metis append_take_drop_id)
  with lit ne nq show "\<exists>lit post. bs = lit @ g @ dquote # post \<and>
        map ascii_lower lit = enc_literal \<and> g \<noteq> [] \<and> dquote \<notin> set g"
    by blast
next
  assume "\<exists>lit post. bs = lit @ g @ dquote # post \<and> map ascii_lower lit = enc_literal \<and>
        g \<noteq> [] \<and> dquote \<notin> set g"
  then obtain lit post where bs: "bs = lit @ g @ dquote # post"
    and lit: "map ascii_lower lit = enc_literal" and ne: "g \<noteq> []" and nq: "dquote \<notin> set g"
    by blast
  from lit have len: "length lit = 10"
    using length_enc_literal by (metis length_map)
  have tw: "takeWhile (\<lambda>b. b \<noteq> dquote) (g @ dquote # post) = g"
    using nq by (auto simp: takeWhile_tail)
  show "enc_match_here bs = Some g"
    using len lit ne tw by (simp add: enc_match_here_def bs Let_def)
qed

lemma declares_at_iff:
  "declares_at bs i g \<longleftrightarrow> i \<le> length bs \<and> enc_match_here (drop i bs) = Some g"
proof
  assume "declares_at bs i g"
  then obtain pre lit post where bs: "bs = pre @ lit @ g @ dquote # post"
    and i: "length pre = i" and rest: "map ascii_lower lit = enc_literal" "g \<noteq> []" "dquote \<notin> set g"
    unfolding declares_at_def by blast
  from bs i have "drop i bs = lit @ g @ dquote # post" by simp
  with rest have "enc_match_here (drop i bs) = Some g"
    using enc_match_here_iff by blast
  moreover from bs i have "i \<le> length bs" by simp
  ultimately show "i \<le> length bs \<and> enc_match_here (drop i bs) = Some g" by simp
next
  assume a: "i \<le> length bs \<and> enc_match_here (drop i bs) = Some g"
  then obtain lit post where d: "drop i bs = lit @ g @ dquote # post"
    and rest: "map ascii_lower lit = enc_literal" "g \<noteq> []" "dquote \<notin> set g"
    using enc_match_here_iff by blast
  have "bs = take i bs @ lit @ g @ dquote # post"
    using d by (metis append_take_drop_id)
  moreover have "length (take i bs) = i" using a by simp
  ultimately show "declares_at bs i g"
    unfolding declares_at_def using rest by blast
qed

lemma enc_match_here_Nil: "enc_match_here [] = None"
  by (simp add: enc_match_here_def enc_literal_def)

lemma enc_re_search_Some:
  "enc_re_search bs = Some g \<longleftrightarrow>
     (\<exists>i. enc_match_here (drop i bs) = Some g \<and> (\<forall>j<i. enc_match_here (drop j bs) = None))"
proof (induction bs)
  case Nil
  then show ?case by (simp add: enc_match_here_Nil)
next
  case (Cons b bs)
  show ?case
  proof (cases "enc_match_here (b # bs)")
    case (Some h)
    have "(\<exists>i. enc_match_here (drop i (b # bs)) = Some g \<and>
             (\<forall>j<i. enc_match_here (drop j (b # bs)) = None)) \<longleftrightarrow> h = g"
    proof
      assume "\<exists>i. enc_match_here (drop i (b # bs)) = Some g \<and>
             (\<forall>j<i. enc_match_here (drop j (b # bs)) = None)"
      then obtain i where i: "enc_match_here (drop i (b # bs)) = Some g"
        "\<forall>j<i. enc_match_here (drop j (b # bs)) = None" by blast
      have "i = 0"
      proof (rule ccontr)
        assume "i \<noteq> 0"
        then have "enc_match_here (drop 0 (b # bs)) = None" using i(2) by blast
        with Some show False by simp
      qed
      with i(1) Some show "h = g" by simp
    next
      assume "h = g"
      with Some have "enc_match_here (drop 0 (b # bs)) = Some g" by simp
      then show "\<exists>i. enc_match_here (drop i (b # bs)) = Some g \<and>
             (\<forall>j<i. enc_match_here (drop j (b # bs)) = None)"
        by (intro exI[of _ 0]) simp
    qed
    with Some show ?thesis by simp
  next
    case None
    have "(\<exists>i. enc_match_here (drop i (b # bs)) = Some g \<and>
             (\<forall>j<i. enc_match_here (drop j (b # bs)) = None)) \<longleftrightarrow>
          (\<exists>i. enc_match_here (drop i bs) = Some g \<and>
             (\<forall>j<i. enc_match_here (drop j bs) = None))"
    proof
      assume "\<exists>i. enc_match_here (drop i (b # bs)) = Some g \<and>
             (\<forall>j<i. enc_match_here (drop j (b # bs)) = None)"
      then obtain i where i: "enc_match_here (drop i (b # bs)) = Some g"
        "\<forall>j<i. enc_match_here (drop j (b # bs)) = None" by blast
      from i(1) None obtain k where k: "i = Suc k" by (cases i) auto
      have "enc_match_here (drop k bs) = Some g" using i(1) k by simp
      moreover have "\<forall>j<k. enc_match_here (drop j bs) = None"
      proof (intro allI impI)
        fix j assume "j < k"
        then have "Suc j < i" using k by simp
        then have "enc_match_here (drop (Suc j) (b # bs)) = None" using i(2) by blast
        then show "enc_match_here (drop j bs) = None" by simp
      qed
      ultimately show "\<exists>i. enc_match_here (drop i bs) = Some g \<and>
             (\<forall>j<i. enc_match_here (drop j bs) = None)" by blast
    next
      assume "\<exists>i. enc_match_here (drop i bs) = Some g \<and>
             (\<forall>j<i. enc_match_here (drop j bs) = None)"
      then obtain k where k: "enc_match_here (drop k bs) = Some g"
        "\<forall>j<k. enc_match_here (drop j bs) = None" by blast
      have "enc_match_here (drop (Suc k) (b # bs)) = Some g" using k(1) by simp
      moreover have "\<forall>j<Suc k. enc_match_here (drop j (b # bs)) = None"
      proof (intro allI impI)
        fix j assume j: "j < Suc k"
        show "enc_match_here (drop j (b # bs)) = None"
        proof (cases j)
          case 0
          then show ?thesis using None by simp
        next
          case (Suc m)
          then show ?thesis using j k(2) by simp
        qed
      qed
      ultimately show "\<exists>i. enc_match_here (drop i (b # bs)) = Some g \<and>
             (\<forall>j<i. enc_match_here (drop j (b # bs)) = None)" by blast
    qed
    with None Cons.IH show ?thesis by simp
  qed
qed

lemma enc_match_here_drop_long: "length bs \<le> i \<Longrightarrow> enc_match_here (drop i bs) = None"
  by (simp add: enc_match_here_Nil)

lemma enc_re_search_leftmost:
  "enc_re_search bs = Some g \<longleftrightarrow>
     (\<exists>i. declares_at bs i g \<and> (\<forall>j<i. \<forall>h. \<not> declares_at bs j h))"
proof -
  have "(\<exists>i. enc_match_here (drop i bs) = Some g \<and> (\<forall>j<i. enc_match_here (drop j bs) = None))
        \<longleftrightarrow> (\<exists>i. declares_at bs i g \<and> (\<forall>j<i. \<forall>h. \<not> declares_at bs j h))"
  proof
    assume "\<exists>i. enc_match_here (drop i bs) = Some g \<and>
                (\<forall>j<i. enc_match_here (drop j bs) = None)"
    then obtain i where i: "enc_match_here (drop i bs) = Some g"
      "\<forall>j<i. enc_match_here (drop j bs) = None" by blast
    have "i \<le> length bs"
      using i(1) enc_match_here_drop_long[of bs i]
      by (cases "i \<le> length bs") auto
    with i(1) have "declares_at bs i g" by (simp add: declares_at_iff)
    moreover have "\<forall>j<i. \<forall>h. \<not> declares_at bs j h"
      using i(2) by (auto simp: declares_at_iff)
    ultimately show "\<exists>i. declares_at bs i g \<and> (\<forall>j<i. \<forall>h. \<not> declares_at bs j h)" by blast
  next
    assume "\<exists>i. declares_at bs i g \<and> (\<forall>j<i. \<forall>h. \<not> declares_at bs j h)"
    then obtain i where i: "declares_at bs i g" "\<forall>j<i. \<forall>h. \<not> declares_at bs j h" by blast
    from i(1) have il: "i \<le> length bs" and m: "enc_match_here (drop i bs) = Some g"
      by (simp_all add: declares_at_iff)
    have "\<forall>j<i. enc_match_here (drop j bs) = None"
    proof (intro allI impI)
      fix j assume j: "j < i"
      show "enc_match_here (drop j bs) = None"
      proof (cases "enc_match_here (drop j bs)")
        case None then show ?thesis .
      next
        case (Some h)
        with j il have "declares_at bs j h" by (simp add: declares_at_iff)
        with i(2) j show ?thesis by blast
      qed
    qed
    with m show "\<exists>i. enc_match_here (drop i bs) = Some g \<and>
                (\<forall>j<i. enc_match_here (drop j bs) = None)" by blast
  qed
  then show ?thesis by (simp add: enc_re_search_Some)
qed

lemma enc_re_search_None:
  "enc_re_search bs = None \<longleftrightarrow> (\<forall>i g. \<not> declares_at bs i g)"
proof
  assume n: "enc_re_search bs = None"
  show "\<forall>i g. \<not> declares_at bs i g"
  proof (intro allI notI)
    fix i g assume d: "declares_at bs i g"
    define P where "P = (\<lambda>k. \<exists>h. declares_at bs k h)"
    have "P i" using d P_def by blast
    then have "P (LEAST k. P k)"
      by (rule LeastI)
    have least: "\<And>j. j < (LEAST k. P k) \<Longrightarrow> \<not> P j"
      by (rule not_less_Least)
    from \<open>P (LEAST k. P k)\<close>
    obtain h where "declares_at bs (LEAST k. P k) h" using P_def by blast
    with least have "enc_re_search bs = Some h"
      unfolding enc_re_search_leftmost P_def by blast
    with n show False by simp
  qed
next
  assume a: "\<forall>i g. \<not> declares_at bs i g"
  show "enc_re_search bs = None"
  proof (cases "enc_re_search bs")
    case None then show ?thesis .
  next
    case (Some g)
    then show ?thesis using a enc_re_search_leftmost by blast
  qed
qed

text \<open>
  Claim C5, as the code has it. A UTF-16 byte-order mark at the start decides first:
  \<open>utf-16le\<close> for FF FE, \<open>utf-16be\<close> for FE FF. Otherwise the leftmost declaration
  \<open>encoding="..."\<close> that lies within the first 200 bytes is used: its name is stripped of
  bytes above 127 and put in lower case; a known UTF-16/UCS-2 alias gives \<open>utf-16le\<close>,
  any other name is returned in that lower-case form. With no declaration there the
  result is \<open>utf-8\<close>.
\<close>

theorem detect_xml_encoding_policy:
  "(prefix bom_le raw \<longrightarrow> detect_xml_encoding raw = ''utf-16le'') \<and>
   (prefix bom_be raw \<longrightarrow> detect_xml_encoding raw = ''utf-16be'') \<and>
   (\<not> prefix bom_le raw \<and> \<not> prefix bom_be raw \<and>
    declares_at (take 200 raw) i g \<and> (\<forall>j<i. \<forall>h. \<not> declares_at (take 200 raw) j h)
    \<longrightarrow> detect_xml_encoding raw =
          (let enc = map ascii_lower (decode_ascii_ignore g)
           in if enc \<in> set utf16_aliases then ''utf-16le'' else enc)) \<and>
   (\<not> prefix bom_le raw \<and> \<not> prefix bom_be raw \<and> (\<forall>i g. \<not> declares_at (take 200 raw) i g)
    \<longrightarrow> detect_xml_encoding raw = ''utf-8'')"
proof (intro conjI impI)
  show "prefix bom_le raw \<Longrightarrow> detect_xml_encoding raw = ''utf-16le''"
    by (simp add: detect_xml_encoding_def)
  show "prefix bom_be raw \<Longrightarrow> detect_xml_encoding raw = ''utf-16be''"
    by (auto simp: detect_xml_encoding_def bom_le_def bom_be_def prefix_def)
next
  assume a: "\<not> prefix bom_le raw \<and> \<not> prefix bom_be raw \<and>
    declares_at (take 200 raw) i g \<and> (\<forall>j<i. \<forall>h. \<not> declares_at (take 200 raw) j h)"
  then have "enc_re_search (take 200 raw) = Some g"
    using enc_re_search_leftmost by blast
  with a show "detect_xml_encoding raw =
          (let enc = map ascii_lower (decode_ascii_ignore g)
           in if enc \<in> set utf16_aliases then ''utf-16le'' else enc)"
    by (simp add: detect_xml_encoding_def)
next
  assume a: "\<not> prefix bom_le raw \<and> \<not> prefix bom_be raw \<and>
             (\<forall>i g. \<not> declares_at (take 200 raw) i g)"
  then have "enc_re_search (take 200 raw) = None"
    using enc_re_search_None by blast
  with a show "detect_xml_encoding raw = ''utf-8''"
    by (simp add: detect_xml_encoding_def)
qed

theorem detect_xml_encoding_policy_witness:
  "detect_xml_encoding (bom_le @ xml_decl ''utf-8'') = ''utf-16le'' \<and>
   detect_xml_encoding (bom_be @ xml_decl ''utf-8'') = ''utf-16be'' \<and>
   detect_xml_encoding (xml_decl ''UCS-2'') = ''utf-16le'' \<and>
   detect_xml_encoding (xml_decl ''latin-1'') = ''latin-1'' \<and>
   detect_xml_encoding ''<ROOT/>'' = ''utf-8''"
proof -
  have 1: "prefix bom_le (bom_le @ xml_decl ''utf-8'')" by simp
  have 2: "prefix bom_be (bom_be @ xml_decl ''utf-8'')" by simp
  have n3: "\<not> prefix bom_le (xml_decl ''UCS-2'') \<and> \<not> prefix bom_be (xml_decl ''UCS-2'')"
    by code_simp
  have m3: "enc_match_here (drop 0 (take 200 (xml_decl ''UCS-2''))) = Some ''UCS-2''"
    by code_simp
  then have d3: "declares_at (take 200 (xml_decl ''UCS-2'')) 0 ''UCS-2''"
    by (simp add: declares_at_iff)
  have n4: "\<not> prefix bom_le (xml_decl ''latin-1'') \<and> \<not> prefix bom_be (xml_decl ''latin-1'')"
    by code_simp
  have m4: "enc_match_here (drop 0 (take 200 (xml_decl ''latin-1''))) = Some ''latin-1''"
    by code_simp
  then have d4: "declares_at (take 200 (xml_decl ''latin-1'')) 0 ''latin-1''"
    by (simp add: declares_at_iff)
  have n5: "\<not> prefix bom_le ''<ROOT/>'' \<and> \<not> prefix bom_be ''<ROOT/>''"
    by code_simp
  have "enc_re_search (take 200 ''<ROOT/>'') = None" by code_simp
  then have d5: "\<forall>i g. \<not> declares_at (take 200 ''<ROOT/>'') i g"
    using enc_re_search_None by blast
  have v3: "(let enc = map ascii_lower (decode_ascii_ignore ''UCS-2'')
             in if enc \<in> set utf16_aliases then ''utf-16le'' else enc) = ''utf-16le''"
    by code_simp
  have v4: "(let enc = map ascii_lower (decode_ascii_ignore ''latin-1'')
             in if enc \<in> set utf16_aliases then ''utf-16le'' else enc) = ''latin-1''"
    by code_simp
  from detect_xml_encoding_policy[of "bom_le @ xml_decl ''utf-8''"] 1
  have r1: "detect_xml_encoding (bom_le @ xml_decl ''utf-8'') = ''utf-16le''" by blast
  from detect_xml_encoding_policy[of "bom_be @ xml_decl ''utf-8''"] 2
  have r2: "detect_xml_encoding (bom_be @ xml_decl ''utf-8'') = ''utf-16be''" by blast
  from detect_xml_encoding_policy[of "xml_decl ''UCS-2''" 0 "''UCS-2''"] n3 d3 v3
  have r3: "detect_xml_encoding (xml_decl ''UCS-2'') = ''utf-16le''" by simp
  from detect_xml_encoding_policy[of "xml_decl ''latin-1''" 0 "''latin-1''"] n4 d4 v4
  have r4: "detect_xml_encoding (xml_decl ''latin-1'') = ''latin-1''" by simp
  from detect_xml_encoding_policy[of "''<ROOT/>''"] n5 d5
  have r5: "detect_xml_encoding ''<ROOT/>'' = ''utf-8''" by blast
  from r1 r2 r3 r4 r5 show ?thesis by blast
qed

text \<open>
  Against C5 as stated: the declared name \<open>Windows-1252\<close> is not used verbatim; the
  detector returns it in lower case.
\<close>

theorem detect_xml_encoding_lowercases:
  "detect_xml_encoding (''<?xml version='' @ [dquote] @ ''1.0'' @ [dquote] @ '' '' @
      xml_decl ''Windows-1252'') = ''windows-1252'' \<and>
   ''windows-1252'' \<noteq> ''Windows-1252''"
  by code_simp

subsection \<open>Boolean-mask selection\<close>

lemma select_Nil [simp]: "select [] xs = []" "select keep [] = []"
  by (simp_all add: select_def)

lemma select_Cons [simp]:
  "select (b # bs) (x # xs) = (if b then x # select bs xs else select bs xs)"
  by (simp add: select_def)







lemma select_select:
  "length cs = length xs \<Longrightarrow>
   select (map q (select (map p cs) cs)) (select (map p cs) xs) =
   select (map (\<lambda>c. p c \<and> q c) cs) xs"
  by (induction cs xs rule: list_induct2) auto

lemma select_select_same:
  "select (map q (select (map p cs) cs)) (select (map p cs) cs) =
   select (map (\<lambda>c. p c \<and> q c) cs) cs"
  by (rule select_select) simp


subsection \<open>Frames\<close>


lemma index_select_rows [simp]: "index (select_rows keep df) = select keep (index df)"
  by (simp add: select_rows_def)

lemma columns_select_rows [simp]: "columns (select_rows keep df) = columns df"
  by (auto simp: select_rows_def columns_def col_name_def)






lemma index_set_column [simp]: "index (set_column n c df) = index df"
  by (simp add: set_column_def)






subsection \<open>The time filter\<close>




subsection \<open>The EventID filter\<close>







subsection \<open>The error reporter\<close>







subsection \<open>What the worker leaves behind\<close>


lemma put_file_frame:
  "rmtree_calls (put_file p b s) = rmtree_calls s \<and> records (put_file p b s) = records s \<and>
   (\<forall>q. q \<noteq> p \<longrightarrow> nodes (put_file p b s) q = nodes s q)"
  by (simp add: put_file_def)









text \<open>
  Claim C1 fails on the code. The reader never returns the "no rows" signal \<open>None\<close>.
  When the parse of the decoded text reports no rows with \<open>XPathError\<close>, line 167
  evaluates the unbound name \<open>Non\<close> and raises \<open>NameError\<close>; when it reports them with
  \<open>ValueError\<close>, as the fast path does, the second handler does not catch it. Either
  way the worker's handler reports the job through \<open>log_error\<close>, as an error.
\<close>

theorem safe_read_xml_no_rows_raises:
  "safe_read_xml w s p \<noteq> Inr None \<and>
   safe_read_xml no_rows_world decoded_state (path_join ''T'' ''lp.xml'') = Inl NameError \<and>
   safe_read_xml no_rows_world2 decoded_state (path_join ''T'' ''lp.xml'') = Inl ValueError \<and>
   fst (worker no_rows_world sample_job sample_state) = Inr None \<and>
   records (snd (worker no_rows_world sample_job sample_state))
     = [(ERROR, ''Exception processing a,b.evtx: failed'')] \<and>
   records (snd (worker no_rows_world2 sample_job sample_state))
     = [(ERROR, ''Exception processing a,b.evtx: failed'')]"
proof -
  have 1: "safe_read_xml w s p \<noteq> Inr None"
    by (simp add: safe_read_xml_def Let_def split: option.split node.split sum.split)
  have 2: "safe_read_xml no_rows_world decoded_state (path_join ''T'' ''lp.xml'') = Inl NameError"
    by code_simp
  have 3: "safe_read_xml no_rows_world2 decoded_state (path_join ''T'' ''lp.xml'') = Inl ValueError"
    by code_simp
  have 4: "fst (worker no_rows_world sample_job sample_state) = Inr None"
    by code_simp
  have 5: "records (snd (worker no_rows_world sample_job sample_state))
     = [(ERROR, ''Exception processing a,b.evtx: failed'')]"
    by code_simp
  have 6: "records (snd (worker no_rows_world2 sample_job sample_state))
     = [(ERROR, ''Exception processing a,b.evtx: failed'')]"
    by code_simp
  from 1 2 3 4 5 6 show ?thesis by blast
qed

subsection \<open>Normalisation\<close>















subsection \<open>The aggregated header\<close>

lemma first_seen_Nil [simp]: "first_seen [] = []"
  by (simp add: first_seen_def)

lemma first_seen_snoc:
  "first_seen (xs @ [x]) = (if x \<in> set (first_seen xs) then first_seen xs else first_seen xs @ [x])"
  by (simp add: first_seen_def)

lemma set_first_seen [simp]: "set (first_seen xs) = set xs"
  by (induction xs rule: rev_induct) (auto simp: first_seen_snoc)

lemma distinct_first_seen [simp]: "distinct (first_seen xs)"
  by (induction xs rule: rev_induct) (auto simp: first_seen_snoc)









end
